theory Spec2Isabelle
  imports Complex_Main "HOL-Library.Sublist" "HOL-Library.Multiset"
    "HOL-Library.Char_ord" "HOL-Library.List_Lexorder" "HOL-Library.Product_Lexorder"
begin

section \<open>Python values and strings\<close>

text \<open>
  The program is a Python script (\<^verbatim>\<open>app.py\<close>). Its values are the values that the
  JSON decoder produces: \<^verbatim>\<open>None\<close>, booleans, integers, floats, strings, lists and
  dictionaries. Floats are idealised as rationals (no rounding error, no infinity); NaN
  occurs only in the cells of the data frame, which have a type of their own below.
  A dictionary is an association list in insertion order; its keys are assumed distinct,
  as they are in a Python \<^verbatim>\<open>dict\<close>.

  A string is a \<open>char list\<close>. For ASCII text one \<open>char\<close> is one code point, which is
  what \<^verbatim>\<open>len\<close> counts; lower-casing and the character classes of the regular
  expressions are modelled on ASCII.
\<close>

datatype error = TypeError | ValueError

datatype pyval =
    PNone
  | PBool bool
  | PInt int
  | PFloat rat
  | PStr string
  | PList "pyval list"
  | PDict "(string \<times> pyval) list"

text \<open>Truth value testing, as \<^verbatim>\<open>if x:\<close> does it.\<close>

fun truthy :: "pyval \<Rightarrow> bool" where
  "truthy PNone = False"
| "truthy (PBool b) = b"
| "truthy (PInt i) = (i \<noteq> 0)"
| "truthy (PFloat q) = (q \<noteq> 0)"
| "truthy (PStr s) = (s \<noteq> [])"
| "truthy (PList xs) = (xs \<noteq> [])"
| "truthy (PDict kvs) = (kvs \<noteq> [])"

text \<open>\<^verbatim>\<open>a or b\<close>\<close>

definition py_or :: "pyval \<Rightarrow> pyval \<Rightarrow> pyval" where
  "py_or a b = (if truthy a then a else b)"

text \<open>\<^verbatim>\<open>d.get(k)\<close>: the value stored under \<open>k\<close>, \<^verbatim>\<open>None\<close> when the key is absent.\<close>

definition dict_get :: "(string \<times> pyval) list \<Rightarrow> string \<Rightarrow> pyval" where
  "dict_get d k = (case map_of d k of None \<Rightarrow> PNone | Some v \<Rightarrow> v)"

text \<open>\<^verbatim>\<open>s.lower()\<close> on ASCII letters.\<close>

definition lower_char :: "char \<Rightarrow> char" where
  "lower_char c =
     (let n = (of_char c :: nat) in if 65 \<le> n \<and> n \<le> 90 then char_of (n + 32) else c)"

definition lower :: "string \<Rightarrow> string" where
  "lower s = map lower_char s"

text \<open>\<^verbatim>\<open>sub in s\<close> on strings: \<open>sub\<close> occurs in \<open>s\<close> as a contiguous piece.\<close>

definition str_in :: "string \<Rightarrow> string \<Rightarrow> bool" where
  "str_in sub s = sublist sub s"

text \<open>
  What it means for a word to occur in a text whatever the case of the letters: two
  characters are the same letter when they are equal or when one is an upper-case ASCII
  letter and the other is its lower-case form. This is said without \<open>lower\<close>; the
  properties below state the program's matching in these terms.
\<close>

definition is_upper :: "char \<Rightarrow> bool" where
  "is_upper c = (65 \<le> (of_char c :: nat) \<and> (of_char c :: nat) \<le> 90)"

definition same_letter :: "char \<Rightarrow> char \<Rightarrow> bool" where
  "same_letter a b =
     (a = b
      \<or> (is_upper a \<and> (of_char b :: nat) = of_char a + 32)
      \<or> (is_upper b \<and> (of_char a :: nat) = of_char b + 32))"

section \<open>Underwriter credibility\<close>

definition TOP_UNDERWRITERS :: "string list" where
  "TOP_UNDERWRITERS =
     [''Goldman Sachs'', ''Morgan Stanley'', ''J.P. Morgan'', ''JPMorgan'', ''Bank of America'',
      ''Barclays'', ''Citigroup'', ''Citi'', ''Credit Suisse'', ''UBS'', ''Deutsche Bank'']"

record cred =
  score :: string
  matches :: "string list"

text \<open>
  \<^verbatim>\<open>any(t.lower() in u.lower() for t in TOP_UNDERWRITERS)\<close>
\<close>

definition top_match :: "string \<Rightarrow> bool" where
  "top_match u = list_ex (\<lambda>t. str_in (lower t) (lower u)) TOP_UNDERWRITERS"

text \<open>
  The argument is \<^verbatim>\<open>None\<close> (absent) or a list of strings.
\<close>

definition underwriter_credibility_score :: "string list option \<Rightarrow> cred" where
  "underwriter_credibility_score underwriters_list =
     (case underwriters_list of
        None \<Rightarrow> \<lparr>score = ''Unknown'', matches = []\<rparr>
      | Some us \<Rightarrow>
          if us = [] then \<lparr>score = ''Unknown'', matches = []\<rparr>
          else let ms = filter top_match us in
            if length ms \<ge> 2 then \<lparr>score = ''High'', matches = ms\<rparr>
            else if length ms = 1 then \<lparr>score = ''Medium'', matches = ms\<rparr>
            else \<lparr>score = ''Low'', matches = us\<rparr>)"

section \<open>Rendering values in f-strings\<close>

text \<open>
  An f-string \<^verbatim>\<open>f"{v}"\<close> inserts \<^verbatim>\<open>str(v)\<close>. The text of \<^verbatim>\<open>None\<close>, of a boolean,
  of an integer and of a string is written out; the text of a float or of a container is
  the business of the Python runtime and is taken as the parameter \<open>ext\<close>.
\<close>

definition digit_char :: "nat \<Rightarrow> char" where
  "digit_char n = char_of (48 + n)"

fun nat_digits :: "nat \<Rightarrow> string" where
  "nat_digits n =
     (if n < 10 then [digit_char n] else nat_digits (n div 10) @ [digit_char (n mod 10)])"

declare nat_digits.simps [simp del]

definition int_str :: "int \<Rightarrow> string" where
  "int_str i = (if i < 0 then CHR ''-'' # nat_digits (nat (- i)) else nat_digits (nat i))"

fun py_str :: "(pyval \<Rightarrow> string) \<Rightarrow> pyval \<Rightarrow> string" where
  "py_str ext PNone = ''None''"
| "py_str ext (PBool b) = (if b then ''True'' else ''False'')"
| "py_str ext (PInt i) = int_str i"
| "py_str ext (PStr s) = s"
| "py_str ext v = ext v"

section \<open>Price formatting\<close>

text \<open>The en dash and the em dash of the source's literals, as their UTF-8 bytes.\<close>

definition en_dash :: string where
  "en_dash = [CHR 0xE2, CHR 0x80, CHR 0x93]"

definition em_dash :: string where
  "em_dash = [CHR 0xE2, CHR 0x80, CHR 0x94]"

definition format_price :: "(pyval \<Rightarrow> string) \<Rightarrow> pyval \<Rightarrow> pyval \<Rightarrow> pyval \<Rightarrow> string" where
  "format_price ext price min_p max_p =
     (if truthy price then ''$'' @ py_str ext price
      else if truthy min_p \<and> truthy max_p then
        ''$'' @ py_str ext min_p @ '' '' @ en_dash @ '' $'' @ py_str ext max_p
      else if truthy min_p \<and> \<not> truthy max_p then ''$'' @ py_str ext min_p @ ''+''
      else if truthy max_p \<and> \<not> truthy min_p then ''Up to $'' @ py_str ext max_p
      else em_dash)"

section \<open>Red flags\<close>







text \<open>
  The ratios that \<open>red_flag_scan\<close> reads are optional numbers: \<^verbatim>\<open>None\<close>, an integer or
  a float. \<open>num_gt v n\<close> says that the number \<open>v\<close> is greater than \<open>n\<close>.
\<close>

fun is_ratio :: "pyval \<Rightarrow> bool" where
  "is_ratio PNone = True"
| "is_ratio (PInt i) = True"
| "is_ratio (PFloat q) = True"
| "is_ratio v = False"


section \<open>Sector outlook\<close>

record source_ref =
  title :: string
  url :: string

record outlook =
  tam :: string
  cagr :: string
  sources :: "source_ref list"

definition TAM_CAGR_MAP :: "(string \<times> outlook) list" where
  "TAM_CAGR_MAP =
     [(''cybersecurity'',
        \<lparr>tam = ''Global cybersecurity market ~200B (2024 est.)'', cagr = ''~12% CAGR to 2030'',
         sources = [\<lparr>title = ''Grand View Research'',
           url = ''https://www.grandviewresearch.com/industry-analysis/cyber-security-market''\<rparr>]\<rparr>),
      (''ai'',
        \<lparr>tam = ''AI software segments vary; generative AI segments show very fast growth'',
         cagr = ''~30%+ CAGR for some generative AI subsegments'',
         sources = [\<lparr>title = ''MarketsandMarkets'', url = ''https://www.marketsandmarkets.com/''\<rparr>]\<rparr>),
      (''biotechnology'',
        \<lparr>tam = ''Broad biotech market >$900B'', cagr = ''~7-10% depending on subsegment'',
         sources = [\<lparr>title = ''Fortune Business Insights'',
           url = ''https://www.fortunebusinessinsights.com/''\<rparr>]\<rparr>),
      (''renewable energy'',
        \<lparr>tam = ''Renewable energy market large and growing'', cagr = ''~8-10% for many subsegments'',
         sources = [\<lparr>title = ''IEA'', url = ''https://www.iea.org/''\<rparr>]\<rparr>),
      (''fintech'',
        \<lparr>tam = ''Fintech sizable; payments/lending subsegments large'',
         cagr = ''~20% for some fintech segments'',
         sources = [\<lparr>title = ''Statista'', url = ''https://www.statista.com/''\<rparr>]\<rparr>)]"

text \<open>
  \<^verbatim>\<open>urllib.parse.quote\<close> with its default \<^verbatim>\<open>safe="/"\<close>: letters, digits and
  \<^verbatim>\<open>_.-~/\<close> stay, every other byte becomes \<^verbatim>\<open>%XX\<close> with upper-case hex digits.
\<close>

definition hex_digit :: "nat \<Rightarrow> char" where
  "hex_digit n = (if n < 10 then char_of (48 + n) else char_of (55 + n))"

definition quote_safe :: "char \<Rightarrow> bool" where
  "quote_safe c =
     (let n = (of_char c :: nat) in
        (65 \<le> n \<and> n \<le> 90) \<or> (97 \<le> n \<and> n \<le> 122) \<or> (48 \<le> n \<and> n \<le> 57)
        \<or> c \<in> set ''_.-~/'')"

definition quote_char :: "char \<Rightarrow> string" where
  "quote_char c =
     (if quote_safe c then [c]
      else [CHR ''%'', hex_digit (of_char c div 16), hex_digit (of_char c mod 16)])"

definition quote :: "string \<Rightarrow> string" where
  "quote s = concat (map quote_char s)"

text \<open>
  The loop \<^verbatim>\<open>for k in TAM_CAGR_MAP: if k in key: return TAM_CAGR_MAP[k]\<close>; the keys of
  the table are distinct, so the entry looked up is the entry iterated over.
\<close>

fun tam_loop :: "(string \<times> outlook) list \<Rightarrow> string \<Rightarrow> outlook option" where
  "tam_loop [] key = None"
| "tam_loop ((k, e) # rest) key = (if str_in k key then Some e else tam_loop rest key)"

text \<open>\<^verbatim>\<open>sector_or_industry or ""\<close>; the argument is a string or \<^verbatim>\<open>None\<close>.\<close>

definition or_empty :: "string option \<Rightarrow> string" where
  "or_empty x = (case x of None \<Rightarrow> [] | Some s \<Rightarrow> s)"

definition get_tam_cagr :: "string option \<Rightarrow> outlook" where
  "get_tam_cagr sector_or_industry =
     (let key = lower (or_empty sector_or_industry) in
      case tam_loop TAM_CAGR_MAP key of
        Some e \<Rightarrow> e
      | None \<Rightarrow>
          \<lparr>tam = ''No curated TAM available for this sector in the local mapping.'',
           cagr = ''Unknown'',
           sources = [\<lparr>title = ''Search results'',
             url = ''https://www.google.com/search?q=''
                   @ quote (''market size '' @ or_empty sector_or_industry)\<rparr>]\<rparr>)"

section \<open>Numbers\<close>

text \<open>
  \<^verbatim>\<open>float(v)\<close>. Converting a string is the business of the Python runtime: \<open>sf\<close> gives
  the number a string denotes, or \<open>None\<close> where \<^verbatim>\<open>float\<close> raises \<^verbatim>\<open>ValueError\<close>.
\<close>

fun py_float :: "(string \<Rightarrow> rat option) \<Rightarrow> pyval \<Rightarrow> error + rat" where
  "py_float sf PNone = Inl TypeError"
| "py_float sf (PBool b) = Inr (if b then 1 else 0)"
| "py_float sf (PInt i) = Inr (of_int i)"
| "py_float sf (PFloat q) = Inr q"
| "py_float sf (PStr s) = (case sf s of None \<Rightarrow> Inl ValueError | Some q \<Rightarrow> Inr q)"
| "py_float sf (PList xs) = Inl TypeError"
| "py_float sf (PDict kvs) = Inl TypeError"

text \<open>\<^verbatim>\<open>round(x, 2)\<close>: to the nearest multiple of 1/100, a tie going to the even one.\<close>

definition py_round2 :: "rat \<Rightarrow> rat" where
  "py_round2 x =
     (let y = x * 100; f = \<lfloor>y\<rfloor>; d = y - of_int f
      in of_int (if d < 1 / 2 then f else if d > 1 / 2 then f + 1
                 else if even f then f else f + 1) / 100)"

text \<open>The number a value is, when it is an integer or a float.\<close>

fun num_of :: "pyval \<Rightarrow> rat option" where
  "num_of (PInt i) = Some (of_int i)"
| "num_of (PFloat q) = Some q"
| "num_of v = None"

section \<open>Valuation multiples\<close>

text \<open>
  \<open>safe_div\<close> is the local function of \<open>compute_multiples\<close>; its \<^verbatim>\<open>try\<close> turns every
  exception of the conversions into \<^verbatim>\<open>None\<close>.
\<close>

definition safe_div :: "(string \<Rightarrow> rat option) \<Rightarrow> pyval \<Rightarrow> pyval \<Rightarrow> pyval" where
  "safe_div sf a b =
     (if a = PNone \<or> b = PNone then PNone
      else case py_float sf b of
        Inl e \<Rightarrow> PNone
      | Inr fb \<Rightarrow>
          if fb = 0 then PNone
          else (case py_float sf a of
                  Inl e \<Rightarrow> PNone
                | Inr fa \<Rightarrow> PFloat (py_round2 (fa / fb))))"

text \<open>
  \<open>compute_multiples\<close> after its two fetches: \<open>km\<close> is the key-metrics record (the empty
  dictionary when the fetch gave nothing) and \<open>ev\<close> the enterprise value (\<^verbatim>\<open>None\<close> when
  the fetch gave nothing).
\<close>

definition compute_multiples ::
  "(string \<Rightarrow> rat option) \<Rightarrow> (string \<times> pyval) list \<Rightarrow> pyval \<Rightarrow> (string \<times> pyval) list" where
  "compute_multiples sf km ev =
     (let revenue = py_or (dict_get km ''revenueTTM'') (dict_get km ''revenue'');
          ebitda = py_or (dict_get km ''ebitda'') (dict_get km ''ebitdaTTM'');
          market_cap = py_or (dict_get km ''marketCap'') (dict_get km ''marketCapitalization'')
      in [(''EV/Revenue'', safe_div sf ev revenue),
          (''EV/EBITDA'', safe_div sf ev ebitda),
          (''Price/Sales'', safe_div sf market_cap revenue),
          (''MarketCap'', market_cap),
          (''RevenueTTM'', revenue),
          (''EBITDA'', ebitda)])"

section \<open>Sector median\<close>

text \<open>
  The local function \<open>median\<close> of \<open>fetch_sector_median\<close>, on a list of optional numbers.
\<close>

definition median :: "rat option list \<Rightarrow> rat option" where
  "median vals =
     (let s = sort (map the (filter (\<lambda>v. v \<noteq> None) vals)) in
      if s = [] then None
      else let n = length s; mid = n div 2 in
        if n mod 2 \<noteq> 0 then Some (py_round2 (s ! mid))
        else Some (py_round2 ((s ! (mid - 1) + s ! mid) / 2)))"

section \<open>Candidate rows\<close>

text \<open>
  A row as the two calendar fetchers build it. The four fields of the deduplication key
  are strings (the source tag) or optional strings; the others are whatever the provider
  sent.
\<close>

record ipo_row =
  r_source :: string
  r_date :: "string option"
  r_company :: "string option"
  r_symbol :: "string option"
  r_exchange :: pyval
  r_price :: pyval
  r_price_min :: pyval
  r_price_max :: pyval
  r_shares :: pyval
  r_status :: pyval
  r_deal_type :: pyval

text \<open>An example row, with the price, the two bounds and the share count left open.\<close>

definition demo_row :: "pyval \<Rightarrow> pyval \<Rightarrow> pyval \<Rightarrow> pyval \<Rightarrow> ipo_row" where
  "demo_row p lo hi sh =
     \<lparr>r_source = ''FMP'', r_date = Some ''2025-01-15'', r_company = Some ''Acme'',
      r_symbol = Some ''ACME'', r_exchange = PNone, r_price = p, r_price_min = lo,
      r_price_max = hi, r_shares = sh, r_status = PNone, r_deal_type = PNone\<rparr>"

section \<open>Implied market capitalisation\<close>

definition is_digit :: "char \<Rightarrow> bool" where
  "is_digit c = (48 \<le> (of_char c :: nat) \<and> (of_char c :: nat) \<le> 57)"

text \<open>\<^verbatim>\<open>int(d or 0)\<close> for a string \<open>d\<close> of decimal digits.\<close>

definition str_to_int :: "string \<Rightarrow> int" where
  "str_to_int d = foldl (\<lambda>a c. 10 * a + (of_char c - 48)) 0 d"

text \<open>\<^verbatim>\<open>p * v\<close> for a float \<open>p\<close>.\<close>

fun py_mul :: "rat \<Rightarrow> pyval \<Rightarrow> error + rat" where
  "py_mul p (PInt n) = Inr (p * of_int n)"
| "py_mul p (PFloat q) = Inr (p * q)"
| "py_mul p (PBool b) = Inr (p * (if b then 1 else 0))"
| "py_mul p v = Inl TypeError"

text \<open>
  The enrichment loop reads its rows from the frame \<^verbatim>\<open>pd.DataFrame(rows)\<close>, not from the
  dictionaries the fetchers built. When the values of a column are all \<^verbatim>\<open>None\<close> or
  numbers, and at least one is a number, pandas stores the column as floats and \<^verbatim>\<open>None\<close>
  becomes NaN; a column with any other value, or with \<^verbatim>\<open>None\<close> only, keeps its values.
  A cell read back from a row is therefore NaN or a value. (An integer of a float column
  comes back as the float of the same value; both are the same number here.)
\<close>

datatype cell = CNaN | CVal pyval

fun is_number :: "pyval \<Rightarrow> bool" where
  "is_number (PInt i) = True"
| "is_number (PFloat q) = True"
| "is_number v = False"

definition numeric_col :: "pyval list \<Rightarrow> bool" where
  "numeric_col col = (list_all (\<lambda>v. v = PNone \<or> is_number v) col \<and> list_ex is_number col)"

definition col_cell :: "pyval list \<Rightarrow> pyval \<Rightarrow> cell" where
  "col_cell col v = (if numeric_col col \<and> v = PNone then CNaN else CVal v)"

text \<open>The four cells that the block reads from the row \<open>r\<close> of the frame built from \<open>rows\<close>.\<close>

record num_cells =
  c_price :: cell
  c_price_min :: cell
  c_price_max :: cell
  c_shares :: cell

definition frame_cells :: "ipo_row list \<Rightarrow> ipo_row \<Rightarrow> num_cells" where
  "frame_cells rows r =
     \<lparr>c_price = col_cell (map r_price rows) (r_price r),
      c_price_min = col_cell (map r_price_min rows) (r_price_min r),
      c_price_max = col_cell (map r_price_max rows) (r_price_max r),
      c_shares = col_cell (map r_shares rows) (r_shares r)\<rparr>"

text \<open>A Python float is NaN or a number. NaN is truthy, and arithmetic with NaN gives NaN.\<close>

datatype pfloat = FNaN | F rat

fun cell_truthy :: "cell \<Rightarrow> bool" where
  "cell_truthy CNaN = True"
| "cell_truthy (CVal v) = truthy v"

fun pf_truthy :: "pfloat \<Rightarrow> bool" where
  "pf_truthy FNaN = True"
| "pf_truthy (F q) = (q \<noteq> 0)"

fun cell_float :: "(string \<Rightarrow> rat option) \<Rightarrow> cell \<Rightarrow> error + pfloat" where
  "cell_float sf CNaN = Inr FNaN"
| "cell_float sf (CVal v) = (case py_float sf v of Inl e \<Rightarrow> Inl e | Inr q \<Rightarrow> Inr (F q))"

text \<open>\<^verbatim>\<open>(a + b) / 2\<close> on floats.\<close>

fun pf_mid :: "pfloat \<Rightarrow> pfloat \<Rightarrow> pfloat" where
  "pf_mid (F a) (F b) = F ((a + b) / 2)"
| "pf_mid a b = FNaN"

text \<open>\<^verbatim>\<open>p * c\<close> for a float \<open>p\<close> and a cell \<open>c\<close>.\<close>

fun pf_mul :: "pfloat \<Rightarrow> cell \<Rightarrow> error + pfloat" where
  "pf_mul p CNaN = Inr FNaN"
| "pf_mul FNaN (CVal v) = (case py_mul 0 v of Inl e \<Rightarrow> Inl e | Inr q \<Rightarrow> Inr FNaN)"
| "pf_mul (F p) (CVal v) = (case py_mul p v of Inl e \<Rightarrow> Inl e | Inr q \<Rightarrow> Inr (F q))"

text \<open>
  The block of the enrichment loop that computes \<open>implied_marketcap\<close> from the cells of a
  row; every exception inside it leaves the result \<^verbatim>\<open>None\<close>.
\<close>

definition shares_coerced :: "num_cells \<Rightarrow> cell" where
  "shares_coerced r =
     (case (if cell_truthy (c_shares r) then c_shares r else CVal (PInt 0)) of
        CVal (PStr s) \<Rightarrow> CVal (PInt (str_to_int (filter is_digit s)))
      | c \<Rightarrow> c)"

definition price_val :: "(string \<Rightarrow> rat option) \<Rightarrow> num_cells \<Rightarrow> pfloat option" where
  "price_val sf r =
     (if cell_truthy (c_price r) then
        (case cell_float sf (c_price r) of Inl e \<Rightarrow> None | Inr p \<Rightarrow> Some p)
      else if cell_truthy (c_price_min r) \<and> cell_truthy (c_price_max r) then
        (case cell_float sf (c_price_min r) of
           Inl e \<Rightarrow> None
         | Inr a \<Rightarrow> (case cell_float sf (c_price_max r) of
                       Inl e \<Rightarrow> None
                     | Inr b \<Rightarrow> Some (pf_mid a b)))
      else None)"

definition implied_marketcap :: "(string \<Rightarrow> rat option) \<Rightarrow> num_cells \<Rightarrow> pfloat option" where
  "implied_marketcap sf r =
     (let shares_raw = shares_coerced r in
      case price_val sf r of
        None \<Rightarrow> None
      | Some p \<Rightarrow>
          if pf_truthy p \<and> cell_truthy shares_raw then
            (case pf_mul p shares_raw of Inl e \<Rightarrow> None | Inr v \<Rightarrow> Some v)
          else None)"

text \<open>The implied market capitalisation of each row of the frame built from \<open>rows\<close>.\<close>

definition implied_marketcaps :: "(string \<Rightarrow> rat option) \<Rightarrow> ipo_row list \<Rightarrow> pfloat option list" where
  "implied_marketcaps sf rows = map (\<lambda>r. implied_marketcap sf (frame_cells rows r)) rows"

section \<open>Deduplication and the empty window\<close>

text \<open>
  \<^verbatim>\<open>DataFrame.drop_duplicates(subset=['date','company','symbol','source'], keep='first')\<close>
  of the pandas library: a row is dropped when a row with the same key came before it.
  \<open>seen\<close> holds the keys met so far.
\<close>

definition row_key :: "ipo_row \<Rightarrow> string option \<times> string option \<times> string option \<times> string" where
  "row_key r = (r_date r, r_company r, r_symbol r, r_source r)"

fun drop_dup_loop :: "('a \<Rightarrow> 'k) \<Rightarrow> 'k list \<Rightarrow> 'a list \<Rightarrow> 'a list" where
  "drop_dup_loop key seen [] = []"
| "drop_dup_loop key seen (x # xs) =
     (if key x \<in> set seen then drop_dup_loop key seen xs
      else x # drop_dup_loop key (key x # seen) xs)"

definition drop_duplicates :: "ipo_row list \<Rightarrow> ipo_row list" where
  "drop_duplicates rows = drop_dup_loop row_key [] rows"

text \<open>
  \<^verbatim>\<open>df.sort_values("date")\<close>: ascending by date, rows without a date last.
\<close>

definition date_rank :: "ipo_row \<Rightarrow> nat \<times> string" where
  "date_rank r = (case r_date r of None \<Rightarrow> (1, []) | Some d \<Rightarrow> (0, d))"

definition sort_values_date :: "ipo_row list \<Rightarrow> ipo_row list" where
  "sort_values_date df = sort_key date_rank df"

text \<open>
  The top level of the script from the two fetches on. It either shows the message and
  stops (\<^verbatim>\<open>st.info\<close>, \<^verbatim>\<open>st.stop\<close>), or enriches every row of the sorted frame and goes
  on to render the records. What enriching one row does (its fetches and the helpers
  above) is the parameter \<open>enrich\<close>.
\<close>

datatype 'e run_result = Stopped string | Rendered "'e list"

definition run :: "(ipo_row \<Rightarrow> 'e) \<Rightarrow> ipo_row list \<Rightarrow> ipo_row list \<Rightarrow> 'e run_result" where
  "run enrich fmp_rows finnhub_rows =
     (let rows = [] @ fmp_rows @ finnhub_rows;
          df = drop_duplicates rows
      in if df = [] then
           Stopped ''No IPOs found for the selected window. Try widening the date range.''
         else Rendered (map enrich (sort_values_date df)))"

section \<open>Regular expressions\<close>

text \<open>
  The two patterns of \<open>parse_lockup\<close> are built from single characters, sequence,
  ordered alternation, greedy bounded repetition of a character class and numbered groups.
  \<open>ms r s c\<close> lists every way in which \<open>r\<close> matches a prefix of \<open>s\<close>, as the rest of the
  input and the groups captured, in the order in which the backtracking matcher of
  \<^verbatim>\<open>re\<close> tries them; the head of the list is the match it reports.
\<close>

definition is_space :: "char \<Rightarrow> bool" where
  "is_space c =
     (let n = (of_char c :: nat) in (9 \<le> n \<and> n \<le> 13) \<or> (28 \<le> n \<and> n \<le> 32))"

datatype rx =
    Eps
  | Chr "char \<Rightarrow> bool"
  | Cat rx rx
  | Alt rx rx
  | Rep nat "nat option" "char \<Rightarrow> bool"
  | Grp nat rx

type_synonym caps = "(nat \<times> string) list"

text \<open>
  \<open>reps p lo hi s\<close>: the rests of \<open>s\<close> after between \<open>lo\<close> and \<open>hi\<close> characters of the
  class \<open>p\<close> (no upper bound when \<open>hi\<close> is \<open>None\<close>), the longest repetition first.
\<close>

fun reps :: "(char \<Rightarrow> bool) \<Rightarrow> nat \<Rightarrow> nat option \<Rightarrow> string \<Rightarrow> string list" where
  "reps p lo hi [] = (if lo = 0 then [[]] else [])"
| "reps p lo hi (x # xs) =
     (if p x \<and> hi \<noteq> Some 0 then reps p (lo - 1) (map_option (\<lambda>h. h - 1) hi) xs else [])
     @ (if lo = 0 then [x # xs] else [])"

fun ms :: "rx \<Rightarrow> string \<Rightarrow> caps \<Rightarrow> (string \<times> caps) list" where
  "ms Eps s c = [(s, c)]"
| "ms (Chr p) s c = (case s of [] \<Rightarrow> [] | x # xs \<Rightarrow> if p x then [(xs, c)] else [])"
| "ms (Cat a b) s c = concat (map (\<lambda>(s', c'). ms b s' c') (ms a s c))"
| "ms (Alt a b) s c = ms a s c @ ms b s c"
| "ms (Rep lo hi p) s c = map (\<lambda>s'. (s', c)) (reps p lo hi s)"
| "ms (Grp n a) s c =
     map (\<lambda>(s', c'). (s', (n, take (length s - length s') s) # c')) (ms a s c)"

text \<open>\<^verbatim>\<open>re.search\<close>: the first start position with a match, and the groups of that match.\<close>

fun search :: "rx \<Rightarrow> string \<Rightarrow> caps option" where
  "search r [] = (case ms r [] [] of [] \<Rightarrow> None | (s', c) # rest \<Rightarrow> Some c)"
| "search r (x # xs) =
     (case ms r (x # xs) [] of [] \<Rightarrow> search r xs | (s', c) # rest \<Rightarrow> Some c)"

text \<open>\<^verbatim>\<open>m.group(n)\<close> inside an f-string.\<close>

definition group :: "caps \<Rightarrow> nat \<Rightarrow> string" where
  "group c n = (case map_of c n of None \<Rightarrow> ''None'' | Some g \<Rightarrow> g)"

text \<open>A literal under \<^verbatim>\<open>re.I\<close>: each character matches in either case.\<close>

definition ci :: "char \<Rightarrow> char \<Rightarrow> bool" where
  "ci a x = (lower_char x = lower_char a)"

fun lit :: "string \<Rightarrow> rx" where
  "lit [] = Eps"
| "lit (a # as) = Cat (Chr (ci a)) (lit as)"

text \<open>A sequence of patterns, and an alternation in the order written.\<close>

definition seq :: "rx list \<Rightarrow> rx" where
  "seq rs = foldr Cat rs Eps"

fun alts :: "rx list \<Rightarrow> rx" where
  "alts [] = Chr (\<lambda>x. False)"
| "alts [r] = r"
| "alts (r # rs) = Alt r (alts rs)"

section \<open>Lockup parsing\<close>

text \<open>
  \<^verbatim>\<open>lock[-\s]?up[^\d]{0,30}(\d{1,4})\s*(days|day|months|month|m)\<close> and
  \<^verbatim>\<open>(\d{2,4})\s*days\<close>, both with \<^verbatim>\<open>re.I\<close>.
\<close>

definition lockup_rx :: rx where
  "lockup_rx =
     seq [lit ''lock'',
          Rep 0 (Some 1) (\<lambda>x. x = CHR ''-'' \<or> is_space x),
          lit ''up'',
          Rep 0 (Some 30) (\<lambda>x. \<not> is_digit x),
          Grp 1 (Rep 1 (Some 4) is_digit),
          Rep 0 None is_space,
          Grp 2 (alts [lit ''days'', lit ''day'', lit ''months'', lit ''month'', lit ''m''])]"

definition days_rx :: rx where
  "days_rx = seq [Grp 1 (Rep 2 (Some 4) is_digit), Rep 0 None is_space, lit ''days'']"

definition parse_lockup :: "string \<Rightarrow> string option" where
  "parse_lockup text =
     (if text = [] then None
      else case search lockup_rx text of
        Some m \<Rightarrow> Some (group m 1 @ '' '' @ group m 2)
      | None \<Rightarrow>
          (case search days_rx text of
             Some m2 \<Rightarrow> Some (group m2 1 @ '' days'')
           | None \<Rightarrow> None))"

section \<open>Traversal of the filing extraction\<close>

text \<open>
  \<open>recursive_search\<close> returns the pair of the accumulated text and the URL found (or
  \<^verbatim>\<open>None\<close>). In the loop over the items of a dictionary the source adds the result of
  the recursive call, a pair, to the string \<^verbatim>\<open>txt\<close>: once the call has returned, that
  raises \<^verbatim>\<open>TypeError\<close>. In the loop over a list the pair is unpacked.
\<close>

definition url_keys :: "string list" where
  "url_keys = [''linkToFilingDetails'', ''filingUrl'', ''htmlUrl'', ''link'']"

fun find_url :: "(string \<times> pyval) list \<Rightarrow> string list \<Rightarrow> string option" where
  "find_url obj [] = None"
| "find_url obj (key # keys) =
     (case map_of obj key of
        Some (PStr u) \<Rightarrow> if prefix ''http'' u then Some u else find_url obj keys
      | _ \<Rightarrow> find_url obj keys)"

fun recursive_search :: "pyval \<Rightarrow> error + (string \<times> string option)"
  and dict_items_loop :: "(string \<times> pyval) list \<Rightarrow> string \<Rightarrow> error + string"
  and list_loop :: "pyval list \<Rightarrow> string \<Rightarrow> error + (string \<times> string option)"
where
  "recursive_search (PDict obj) =
     (case dict_items_loop obj [] of
        Inl e \<Rightarrow> Inl e
      | Inr txt \<Rightarrow> Inr (txt, find_url obj url_keys))"
| "recursive_search (PList xs) = list_loop xs []"
| "recursive_search PNone = Inr ([], None)"
| "recursive_search (PBool b) = Inr ([], None)"
| "recursive_search (PInt i) = Inr ([], None)"
| "recursive_search (PFloat q) = Inr ([], None)"
| "recursive_search (PStr s) = Inr ([], None)"
| "dict_items_loop [] txt = Inr txt"
| "dict_items_loop ((k, PDict d) # kvs) txt =
     (case recursive_search (PDict d) of Inl e \<Rightarrow> Inl e | Inr r \<Rightarrow> Inl TypeError)"
| "dict_items_loop ((k, PList l) # kvs) txt =
     (case recursive_search (PList l) of Inl e \<Rightarrow> Inl e | Inr r \<Rightarrow> Inl TypeError)"
| "dict_items_loop ((k, PStr v) # kvs) txt =
     dict_items_loop kvs (if length v > 40 then txt @ '' '' @ v else txt)"
| "dict_items_loop ((k, PNone) # kvs) txt = dict_items_loop kvs txt"
| "dict_items_loop ((k, PBool b) # kvs) txt = dict_items_loop kvs txt"
| "dict_items_loop ((k, PInt i) # kvs) txt = dict_items_loop kvs txt"
| "dict_items_loop ((k, PFloat q) # kvs) txt = dict_items_loop kvs txt"
| "list_loop [] txt = Inr (txt, None)"
| "list_loop (it # its) txt =
     (case recursive_search it of
        Inl e \<Rightarrow> Inl e
      | Inr (subtxt, u) \<Rightarrow>
          (case u of
             Some link \<Rightarrow> Inr (txt @ subtxt, Some link)
           | None \<Rightarrow> list_loop its (txt @ subtxt)))"

text \<open>
  The part of the enrichment loop that sets \<open>lockup\<close>: nothing is done for a falsy
  extraction, and an exception anywhere in the \<^verbatim>\<open>try\<close> leaves \<open>lockup\<close> at \<^verbatim>\<open>None\<close>.
\<close>

definition s1_lockup :: "pyval \<Rightarrow> string option" where
  "s1_lockup s1_extracted =
     (if truthy s1_extracted then
        (case recursive_search s1_extracted of
           Inl e \<Rightarrow> None
         | Inr (raw_text, found_url) \<Rightarrow> parse_lockup raw_text)
      else None)"

text \<open>
  What the loop over a dictionary's items adds for one item whose value is a scalar.
\<close>

fun is_scalar :: "pyval \<Rightarrow> bool" where
  "is_scalar (PDict d) = False"
| "is_scalar (PList l) = False"
| "is_scalar v = True"

fun long_text :: "string \<times> pyval \<Rightarrow> string" where
  "long_text (k, PStr v) = (if length v > 40 then '' '' @ v else [])"
| "long_text (k, v) = []"

section \<open>Verified properties\<close>

subsection \<open>Occurrence whatever the case\<close>

lemma of_char_lower_char:
  "(of_char (lower_char c) :: nat) = (if is_upper c then of_char c + 32 else of_char c)"
  by (simp add: lower_char_def is_upper_def Let_def)

lemma lower_char_eq_iff: "lower_char a = lower_char b \<longleftrightarrow> same_letter a b"
proof -
  have "lower_char a = lower_char b
      \<longleftrightarrow> (of_char (lower_char a) :: nat) = of_char (lower_char b)"
    by simp
  also have "\<dots> \<longleftrightarrow> same_letter a b"
    unfolding of_char_lower_char same_letter_def
    by (auto simp: is_upper_def)
  finally show ?thesis .
qed

lemma map_lower_eq_iff: "lower mid = lower k \<longleftrightarrow> list_all2 same_letter k mid"
proof -
  have "lower mid = lower k \<longleftrightarrow> list_all2 (=) (map lower_char k) (map lower_char mid)"
    unfolding lower_def list.rel_eq by auto
  also have "\<dots> \<longleftrightarrow> list_all2 (\<lambda>x y. lower_char x = lower_char y) k mid"
    by (simp add: list.rel_map)
  finally show ?thesis by (simp add: lower_char_eq_iff)
qed

lemma str_in_lower_iff:
  "str_in (lower k) (lower s)
     \<longleftrightarrow> (\<exists>pre mid post. s = pre @ mid @ post \<and> list_all2 same_letter k mid)"
proof
  assume "str_in (lower k) (lower s)"
  then obtain ps ss where "map lower_char s = ps @ (map lower_char k @ ss)"
    by (auto simp: str_in_def sublist_def lower_def)
  then obtain pre rest where s: "s = pre @ rest"
      and rest: "map lower_char rest = map lower_char k @ ss"
    by (metis map_eq_append_conv)
  from rest obtain mid post where r: "rest = mid @ post"
      and mid: "map lower_char k = map lower_char mid"
    by (metis map_eq_append_conv)
  from mid have "list_all2 same_letter k mid"
    by (simp add: map_lower_eq_iff [symmetric] lower_def)
  with s r show "\<exists>pre mid post. s = pre @ mid @ post \<and> list_all2 same_letter k mid" by blast
next
  assume "\<exists>pre mid post. s = pre @ mid @ post \<and> list_all2 same_letter k mid"
  then obtain pre mid post where s: "s = pre @ mid @ post" and "list_all2 same_letter k mid"
    by blast
  then have "lower mid = lower k" by (simp add: map_lower_eq_iff)
  with s have "lower s = lower pre @ lower k @ lower post" by (simp add: lower_def)
  then show "str_in (lower k) (lower s)" by (auto simp: str_in_def sublist_def)
qed

subsection \<open>Underwriter credibility\<close>

lemma top_match_iff:
  "top_match u \<longleftrightarrow>
     (\<exists>t \<in> set TOP_UNDERWRITERS.
        \<exists>pre mid post. u = pre @ mid @ post \<and> list_all2 same_letter t mid)"
  by (simp add: top_match_def list_ex_iff str_in_lower_iff)

lemma top_match_ext:
  "(\<lambda>u. \<exists>t \<in> set TOP_UNDERWRITERS.
        \<exists>pre mid post. u = pre @ mid @ post \<and> list_all2 same_letter t mid) = top_match"
  by (rule ext) (simp only: top_match_iff)

text \<open>
  Claim C10. The credibility score is \<open>Unknown\<close>, with no matches, exactly when the list
  of underwriters is absent or empty. Otherwise let \<open>ms\<close> be the entries of the list, in
  order, in which the name of some roster bank occurs whatever the case of the letters:
  two or more such entries give \<open>High\<close> and one gives \<open>Medium\<close>, both with \<open>ms\<close> as the
  matches; none gives \<open>Low\<close>, and then the matches returned are the whole input list. The
  witness has entries in upper and in lower case.
\<close>

theorem underwriter_credibility_score_cases:
  fixes ul :: "string list option"
  defines "r \<equiv> underwriter_credibility_score ul"
  shows "(score r = ''Unknown'' \<longleftrightarrow> ul = None \<or> ul = Some [])
       \<and> (ul = None \<or> ul = Some [] \<longrightarrow> matches r = [])
       \<and> (\<forall>us. ul = Some us \<and> us \<noteq> [] \<longrightarrow>
             (let ms = filter (\<lambda>u. \<exists>t \<in> set TOP_UNDERWRITERS.
                         \<exists>pre mid post. u = pre @ mid @ post \<and> list_all2 same_letter t mid) us
              in (length ms \<ge> 2 \<longrightarrow> r = \<lparr>score = ''High'', matches = ms\<rparr>)
               \<and> (length ms = 1 \<longrightarrow> r = \<lparr>score = ''Medium'', matches = ms\<rparr>)
               \<and> (length ms = 0 \<longrightarrow> r = \<lparr>score = ''Low'', matches = us\<rparr>)))"
  unfolding r_def top_match_ext underwriter_credibility_score_def
  by (cases ul) (auto simp: Let_def)

theorem underwriter_credibility_score_witness:
  "underwriter_credibility_score
     (Some [''GOLDMAN SACHS & CO. LLC'', ''Roth Capital'', ''ubs securities''])
     = \<lparr>score = ''High'', matches = [''GOLDMAN SACHS & CO. LLC'', ''ubs securities'']\<rparr>
 \<and> underwriter_credibility_score (Some [''Roth Capital'', ''j.p. morgan securities''])
     = \<lparr>score = ''Medium'', matches = [''j.p. morgan securities'']\<rparr>
 \<and> underwriter_credibility_score (Some [''Roth Capital''])
     = \<lparr>score = ''Low'', matches = [''Roth Capital'']\<rparr>"
proof -
  have f1: "filter top_match [''GOLDMAN SACHS & CO. LLC'', ''Roth Capital'', ''ubs securities'']
      = [''GOLDMAN SACHS & CO. LLC'', ''ubs securities'']"
    by code_simp
  have f2: "filter top_match [''Roth Capital'', ''j.p. morgan securities'']
      = [''j.p. morgan securities'']"
    by code_simp
  have f3: "filter top_match [''Roth Capital''] = []"
    by code_simp
  note t1 = underwriter_credibility_score_cases
      [of "Some [''GOLDMAN SACHS & CO. LLC'', ''Roth Capital'', ''ubs securities'']",
       unfolded top_match_ext]
  note t2 = underwriter_credibility_score_cases
      [of "Some [''Roth Capital'', ''j.p. morgan securities'']", unfolded top_match_ext]
  note t3 = underwriter_credibility_score_cases
      [of "Some [''Roth Capital'']", unfolded top_match_ext]
  have a: "underwriter_credibility_score
     (Some [''GOLDMAN SACHS & CO. LLC'', ''Roth Capital'', ''ubs securities''])
     = \<lparr>score = ''High'', matches = [''GOLDMAN SACHS & CO. LLC'', ''ubs securities'']\<rparr>"
    using t1 by (simp add: Let_def f1 del: filter.simps)
  have b: "underwriter_credibility_score (Some [''Roth Capital'', ''j.p. morgan securities''])
     = \<lparr>score = ''Medium'', matches = [''j.p. morgan securities'']\<rparr>"
    using t2 by (simp add: Let_def f2 del: filter.simps)
  have c: "underwriter_credibility_score (Some [''Roth Capital''])
     = \<lparr>score = ''Low'', matches = [''Roth Capital'']\<rparr>"
    using t3 by (simp add: Let_def f3 del: filter.simps)
  from a b c show ?thesis by simp
qed

subsection \<open>Red flags\<close>



text \<open>The ratios that \<open>compute_multiples\<close> produces are optional numbers.\<close>

lemma safe_div_is_ratio: "is_ratio (safe_div sf a b)"
  by (simp add: safe_div_def split: sum.splits)

lemma compute_multiples_is_ratio:
  "is_ratio (dict_get (compute_multiples sf km ev) ''EV/Revenue'')
 \<and> is_ratio (dict_get (compute_multiples sf km ev) ''Price/Sales'')"
  by (simp add: compute_multiples_def dict_get_def Let_def safe_div_is_ratio)






subsection \<open>Price formatting\<close>

lemma digits: "int_str 5 = ''5''" "int_str 18 = ''18''" by code_simp+

text \<open>
  Claim C9, as amended. A value is present when it is truthy (not \<^verbatim>\<open>None\<close>, zero or
  empty). The formatter returns the price when it is present; else the range when both
  bounds are present; else the low bound followed by \<open>+\<close> when only the low bound is
  present; else \<open>Up to\<close> and the high bound when only the high bound is present; else the
  dash.
\<close>

theorem format_price_cases:
  "(truthy price \<longrightarrow> format_price ext price min_p max_p = ''$'' @ py_str ext price)
 \<and> (\<not> truthy price \<and> truthy min_p \<and> truthy max_p \<longrightarrow>
      format_price ext price min_p max_p
        = ''$'' @ py_str ext min_p @ '' '' @ en_dash @ '' $'' @ py_str ext max_p)
 \<and> (\<not> truthy price \<and> truthy min_p \<and> \<not> truthy max_p \<longrightarrow>
      format_price ext price min_p max_p = ''$'' @ py_str ext min_p @ ''+'')
 \<and> (\<not> truthy price \<and> \<not> truthy min_p \<and> truthy max_p \<longrightarrow>
      format_price ext price min_p max_p = ''Up to $'' @ py_str ext max_p)
 \<and> (\<not> truthy price \<and> \<not> truthy min_p \<and> \<not> truthy max_p \<longrightarrow>
      format_price ext price min_p max_p = em_dash)"
  by (simp add: format_price_def)

theorem format_price_witness:
  "format_price (\<lambda>v. []) PNone (PInt 18) PNone = ''$18+''
   \<and> format_price (\<lambda>v. []) (PInt 5) (PInt 18) PNone = ''$5''"
  using format_price_cases [where price = PNone and min_p = "PInt 18" and max_p = PNone
                                 and ext = "\<lambda>v. []"]
        format_price_cases [where price = "PInt 5" and min_p = "PInt 18" and max_p = PNone
                                 and ext = "\<lambda>v. []"]
  by (simp add: digits)

text \<open>
  Claim C9 as stated says that a high bound without a low bound gives the dash. The source
  has a branch of its own for that case.
\<close>

theorem format_price_high_only_counterexample:
  "format_price (\<lambda>v. []) PNone PNone (PInt 5) = ''Up to $5''
   \<and> format_price (\<lambda>v. []) PNone PNone (PInt 5) \<noteq> em_dash"
  by (simp add: format_price_def digits em_dash_def)

subsection \<open>Sector outlook\<close>

lemma str_in_iff: "str_in k t \<longleftrightarrow> (\<exists>pre post. t = pre @ k @ post)"
  by (simp add: str_in_def sublist_def)

lemma tam_loop_first:
  "i < length t \<Longrightarrow> str_in (fst (t ! i)) key \<Longrightarrow> \<forall>j<i. \<not> str_in (fst (t ! j)) key
     \<Longrightarrow> tam_loop t key = Some (snd (t ! i))"
proof (induction t key arbitrary: i rule: tam_loop.induct)
  case (1 key)
  then show ?case by simp
next
  case (2 k e rest key)
  show ?case
  proof (cases i)
    case 0
    with 2 show ?thesis by simp
  next
    case (Suc i')
    from 2(4) Suc have nk: "\<not> str_in k key" by fastforce
    have "\<forall>j<i'. \<not> str_in (fst (rest ! j)) key"
    proof (intro allI impI)
      fix j assume "j < i'"
      then have "Suc j < i" using Suc by simp
      with 2(4) have "\<not> str_in (fst (((k, e) # rest) ! Suc j)) key" by blast
      then show "\<not> str_in (fst (rest ! j)) key" by simp
    qed
    with 2 Suc nk show ?thesis by simp
  qed
qed

lemma tam_loop_none:
  "\<forall>k \<in> set (map fst t). \<not> str_in k key \<Longrightarrow> tam_loop t key = None"
  by (induction t key rule: tam_loop.induct) simp_all

lemma quote_append: "quote (a @ b) = quote a @ quote b"
  by (simp add: quote_def)

lemma quote_market_size: "quote ''market size '' = ''market%20size%20''"
  by code_simp

lemma quote_market_size_app: "quote (''market size '' @ s) = ''market%20size%20'' @ quote s"
  by (simp only: quote_append quote_market_size)

lemma tam_keys:
  "map fst TAM_CAGR_MAP = [''cybersecurity'', ''ai'', ''biotechnology'', ''renewable energy'', ''fintech'']"
  by (simp add: TAM_CAGR_MAP_def)

lemma tam_keys_lower: "\<forall>k \<in> set (map fst TAM_CAGR_MAP). lower k = k"
  unfolding tam_keys by code_simp

text \<open>
  Claim C8. The table has the five keywords in the order given, all in lower case. The
  resolver returns the entry of the first keyword, in table order, that occurs in the
  lower-cased input; when no keyword occurs there it returns the fallback outlook, whose
  only source is the search URL ending in the percent-encoded input.
\<close>

theorem get_tam_cagr_first_match:
  "map fst TAM_CAGR_MAP = [''cybersecurity'', ''ai'', ''biotechnology'', ''renewable energy'', ''fintech'']
 \<and> (\<forall>k \<in> set (map fst TAM_CAGR_MAP). lower k = k)
 \<and> (\<forall>i < length TAM_CAGR_MAP.
       (\<exists>pre post. lower s = pre @ fst (TAM_CAGR_MAP ! i) @ post)
       \<and> (\<forall>j < i. \<not> (\<exists>pre post. lower s = pre @ fst (TAM_CAGR_MAP ! j) @ post))
       \<longrightarrow> get_tam_cagr (Some s) = snd (TAM_CAGR_MAP ! i))
 \<and> ((\<forall>k \<in> set (map fst TAM_CAGR_MAP). \<not> (\<exists>pre post. lower s = pre @ k @ post))
       \<longrightarrow> get_tam_cagr (Some s)
           = \<lparr>tam = ''No curated TAM available for this sector in the local mapping.'',
              cagr = ''Unknown'',
              sources = [\<lparr>title = ''Search results'',
                url = ''https://www.google.com/search?q=market%20size%20'' @ quote s\<rparr>]\<rparr>)"
proof (intro conjI allI impI)
  show "map fst TAM_CAGR_MAP = [''cybersecurity'', ''ai'', ''biotechnology'', ''renewable energy'', ''fintech'']"
    by (rule tam_keys)
next
  show "\<forall>k \<in> set (map fst TAM_CAGR_MAP). lower k = k" by (rule tam_keys_lower)
next
  fix i
  assume i: "i < length TAM_CAGR_MAP"
    and h: "(\<exists>pre post. lower s = pre @ fst (TAM_CAGR_MAP ! i) @ post)
       \<and> (\<forall>j < i. \<not> (\<exists>pre post. lower s = pre @ fst (TAM_CAGR_MAP ! j) @ post))"
  from h have "tam_loop TAM_CAGR_MAP (lower s) = Some (snd (TAM_CAGR_MAP ! i))"
    unfolding str_in_iff [symmetric] by (intro tam_loop_first [OF i]) simp_all
  then show "get_tam_cagr (Some s) = snd (TAM_CAGR_MAP ! i)"
    by (simp add: get_tam_cagr_def or_empty_def)
next
  assume "\<forall>k \<in> set (map fst TAM_CAGR_MAP). \<not> (\<exists>pre post. lower s = pre @ k @ post)"
  then have "tam_loop TAM_CAGR_MAP (lower s) = None"
    unfolding str_in_iff [symmetric] by (rule tam_loop_none)
  then show "get_tam_cagr (Some s)
           = \<lparr>tam = ''No curated TAM available for this sector in the local mapping.'',
              cagr = ''Unknown'',
              sources = [\<lparr>title = ''Search results'',
                url = ''https://www.google.com/search?q=market%20size%20'' @ quote s\<rparr>]\<rparr>"
    by (simp add: get_tam_cagr_def or_empty_def quote_market_size_app [simplified])
qed

theorem get_tam_cagr_witness:
  "sources (get_tam_cagr (Some ''Widgets''))
     = [\<lparr>title = ''Search results'',
         url = ''https://www.google.com/search?q=market%20size%20Widgets''\<rparr>]
   \<and> get_tam_cagr (Some ''Enterprise AI Software'') = snd (TAM_CAGR_MAP ! 1)"
proof -
  have no: "\<forall>k \<in> set (map fst TAM_CAGR_MAP). \<not> str_in k (lower ''Widgets'')"
    unfolding tam_keys by code_simp
  have q: "quote ''Widgets'' = ''Widgets''" by code_simp
  have yes: "str_in (fst (TAM_CAGR_MAP ! 1)) (lower ''Enterprise AI Software'')"
    by code_simp
  have before: "\<forall>j<1. \<not> str_in (fst (TAM_CAGR_MAP ! j)) (lower ''Enterprise AI Software'')"
  proof (intro allI impI)
    fix j :: nat assume "j < 1"
    then have "j = 0" by simp
    moreover have "\<not> str_in (fst (TAM_CAGR_MAP ! 0)) (lower ''Enterprise AI Software'')"
      by code_simp
    ultimately show "\<not> str_in (fst (TAM_CAGR_MAP ! j)) (lower ''Enterprise AI Software'')" by simp
  qed
  have len: "1 < length TAM_CAGR_MAP" by (simp add: TAM_CAGR_MAP_def)
  from get_tam_cagr_first_match [of "''Widgets''"] no
  have a: "sources (get_tam_cagr (Some ''Widgets''))
     = [\<lparr>title = ''Search results'',
         url = ''https://www.google.com/search?q=market%20size%20Widgets''\<rparr>]"
    unfolding str_in_iff by (simp add: q)
  from get_tam_cagr_first_match [of "''Enterprise AI Software''"] yes before len
  have b: "get_tam_cagr (Some ''Enterprise AI Software'') = snd (TAM_CAGR_MAP ! 1)"
    unfolding str_in_iff by blast
  from a b show ?thesis by simp
qed

subsection \<open>Valuation multiples\<close>

lemma safe_div_unavailable:
  "a = PNone \<or> b = PNone \<or> py_float sf b = Inr 0 \<Longrightarrow> safe_div sf a b = PNone"
  by (auto simp: safe_div_def)

lemma safe_div_present:
  "safe_div sf a b \<noteq> PNone \<Longrightarrow>
     a \<noteq> PNone \<and> b \<noteq> PNone \<and>
     (\<exists>fa fb. py_float sf a = Inr fa \<and> py_float sf b = Inr fb \<and> fb \<noteq> 0
        \<and> safe_div sf a b = PFloat (py_round2 (fa / fb)))"
  by (auto simp: safe_div_def split: if_splits sum.splits)

text \<open>
  Claim C2. The three ratios of \<open>compute_multiples\<close> are \<open>safe_div\<close> of enterprise value
  over revenue, enterprise value over EBITDA and market cap over revenue. \<open>safe_div\<close>
  returns \<^verbatim>\<open>None\<close> whenever an operand is \<^verbatim>\<open>None\<close> or the denominator converts to
  zero; whenever it returns something else, both operands are present and convert to
  numbers, the denominator is not zero, and the result is their quotient rounded to two
  decimals. It is a total function: the exceptions of the conversions end in \<^verbatim>\<open>None\<close>.
  The witness has revenue 0: EV/Revenue is \<^verbatim>\<open>None\<close>.
\<close>

theorem compute_multiples_ratios:
  fixes km :: "(string \<times> pyval) list"
  defines "revenue \<equiv> py_or (dict_get km ''revenueTTM'') (dict_get km ''revenue'')"
      and "ebitda \<equiv> py_or (dict_get km ''ebitda'') (dict_get km ''ebitdaTTM'')"
      and "market_cap \<equiv> py_or (dict_get km ''marketCap'') (dict_get km ''marketCapitalization'')"
  shows "dict_get (compute_multiples sf km ev) ''EV/Revenue'' = safe_div sf ev revenue
       \<and> dict_get (compute_multiples sf km ev) ''EV/EBITDA'' = safe_div sf ev ebitda
       \<and> dict_get (compute_multiples sf km ev) ''Price/Sales'' = safe_div sf market_cap revenue
       \<and> (\<forall>a b. (a = PNone \<or> b = PNone \<or> py_float sf b = Inr 0 \<longrightarrow> safe_div sf a b = PNone)
              \<and> (safe_div sf a b \<noteq> PNone \<longrightarrow>
                   a \<noteq> PNone \<and> b \<noteq> PNone \<and>
                   (\<exists>fa fb. py_float sf a = Inr fa \<and> py_float sf b = Inr fb \<and> fb \<noteq> 0
                      \<and> safe_div sf a b = PFloat (py_round2 (fa / fb)))))"
proof -
  have d: "dict_get (compute_multiples sf km ev) ''EV/Revenue'' = safe_div sf ev revenue"
          "dict_get (compute_multiples sf km ev) ''EV/EBITDA'' = safe_div sf ev ebitda"
          "dict_get (compute_multiples sf km ev) ''Price/Sales'' = safe_div sf market_cap revenue"
    by (simp_all add: compute_multiples_def dict_get_def Let_def revenue_def ebitda_def
          market_cap_def)
  show ?thesis
    using d safe_div_unavailable safe_div_present by blast
qed

theorem compute_multiples_witness:
  "dict_get (compute_multiples (\<lambda>s. None)
       [(''revenueTTM'', PInt 0), (''ebitda'', PInt 50), (''marketCap'', PInt 300)] (PInt 1000))
     ''EV/Revenue'' = PNone
   \<and> dict_get (compute_multiples (\<lambda>s. None)
       [(''revenueTTM'', PInt 0), (''ebitda'', PInt 50), (''marketCap'', PInt 300)] (PInt 1000))
     ''EV/EBITDA'' = PFloat 20"
proof -
  let ?km = "[(''revenueTTM'', PInt 0), (''ebitda'', PInt 50), (''marketCap'', PInt 300)]"
  note t = compute_multiples_ratios [of "\<lambda>s. None" ?km "PInt 1000"]
  note t1 = t [THEN conjunct1]
  note t2 = t [THEN conjunct2, THEN conjunct1]
  note t4 = t [THEN conjunct2, THEN conjunct2, THEN conjunct2, THEN spec, THEN spec,
               THEN conjunct1, of "PInt 1000" PNone]
  have rev: "py_or (dict_get ?km ''revenueTTM'') (dict_get ?km ''revenue'') = PNone"
    by (simp add: py_or_def dict_get_def)
  have eb: "py_or (dict_get ?km ''ebitda'') (dict_get ?km ''ebitdaTTM'') = PInt 50"
    by (simp add: py_or_def dict_get_def)
  have a: "safe_div (\<lambda>s. None) (PInt 1000) PNone = PNone"
    using t4 by simp
  have b: "safe_div (\<lambda>s. None) (PInt 1000) (PInt 50) = PFloat 20"
    by (simp add: safe_div_def py_round2_def)
  show ?thesis
    using t1 t2 unfolding rev eb a b by simp
qed

subsection \<open>Sector median\<close>

lemma median_sort:
  "median vals =
     (let s = sort (map the (filter (\<lambda>v. v \<noteq> None) vals)) in
      if s = [] then None
      else if odd (length s) then Some (py_round2 (s ! (length s div 2)))
      else Some (py_round2 ((s ! (length s div 2 - 1) + s ! (length s div 2)) / 2)))"
  by (simp add: median_def Let_def odd_iff_mod_2_eq_one)

text \<open>
  Claim C3, as amended. Let \<open>s\<close> be the non-null values in ascending order. The median is
  \<^verbatim>\<open>None\<close> when \<open>s\<close> is empty, the middle element of \<open>s\<close> rounded to two decimals when
  the count is odd, and the average of the two middle elements rounded to two decimals
  when it is even. The witness has the examples of the specification.
\<close>

theorem median_rounded_middle:
  assumes "sorted s" and "mset s = mset (map the (filter (\<lambda>v. v \<noteq> None) vals))"
  shows "median vals =
     (if s = [] then None
      else if odd (length s) then Some (py_round2 (s ! (length s div 2)))
      else Some (py_round2 ((s ! (length s div 2 - 1) + s ! (length s div 2)) / 2)))"
proof -
  have "sort (map the (filter (\<lambda>v. v \<noteq> None) vals)) = s"
    using assms by (simp add: properties_for_sort)
  then show ?thesis by (simp add: median_sort Let_def)
qed

theorem median_witness:
  "median [Some 30, None, Some 10, Some 20] = Some 20
   \<and> median [Some 20, Some 10] = Some 15
   \<and> median [] = None
   \<and> median [None, None] = None"
proof -
  have a: "median [Some 30, None, Some 10, Some 20] = Some 20"
    using median_rounded_middle [of "[10, 20, 30]" "[Some 30, None, Some 10, Some 20]"]
    by (simp add: py_round2_def)
  have b: "median [Some 20, Some 10] = Some 15"
    using median_rounded_middle [of "[10, 20]" "[Some 20, Some 10]"]
    by (simp add: py_round2_def)
  have c: "median [] = None"
    using median_rounded_middle [of "[]" "[]"] by simp
  have d: "median [None, None] = None"
    using median_rounded_middle [of "[]" "[None, None]"] by simp
  from a b c d show ?thesis by simp
qed

text \<open>
  Claim C3 as stated says that the median of an odd number of values is the middle
  element itself. The source rounds it: the median of the single value 1.234 is 1.23.
\<close>

theorem median_unrounded_counterexample:
  "median [Some (1234 / 1000)] = Some (123 / 100)
   \<and> median [Some (1234 / 1000)] \<noteq> Some (1234 / 1000)"
  by code_simp

subsection \<open>Implied market capitalisation\<close>

lemma py_float_num: "num_of v = Some q \<Longrightarrow> py_float sf v = Inr q"
  by (cases v) auto

lemma truthy_num: "num_of v = Some q \<Longrightarrow> truthy v \<longleftrightarrow> q \<noteq> 0"
  by (cases v) auto

lemma shares_coerced_num:
  "c_shares r = CVal v \<Longrightarrow> num_of v = Some n \<Longrightarrow> n \<noteq> 0 \<Longrightarrow>
     shares_coerced r = CVal v \<and> cell_truthy (CVal v) \<and> pf_mul (F p) (CVal v) = Inr (F (p * n))"
  by (cases v) (auto simp: shares_coerced_def)

lemma shares_coerced_string:
  "c_shares r = CVal (PStr s) \<Longrightarrow> s \<noteq> [] \<Longrightarrow>
     shares_coerced r = CVal (PInt (str_to_int (filter is_digit s)))"
  by (simp add: shares_coerced_def)

lemma shares_coerced_int: "c_shares r = CVal (PInt n) \<Longrightarrow> shares_coerced r = CVal (PInt n)"
  by (simp add: shares_coerced_def)

lemma shares_coerced_falsy:
  "\<not> cell_truthy (c_shares r) \<Longrightarrow> \<not> cell_truthy (shares_coerced r)"
  by (simp add: shares_coerced_def)

text \<open>
  Where the cells of a row hold values (no NaN), the block does what the comment above it
  says: price times shares, the midpoint of the range standing in for a missing price,
  and \<^verbatim>\<open>None\<close> when an operand is missing.
\<close>

lemma implied_marketcap_values:
  "(\<forall>vp vs p n. c_price r = CVal vp \<and> num_of vp = Some p \<and> p \<noteq> 0
        \<and> c_shares r = CVal vs \<and> num_of vs = Some n \<and> n \<noteq> 0
       \<longrightarrow> implied_marketcap sf r = Some (F (p * n)))
 \<and> (\<forall>va vb vs a b n. \<not> cell_truthy (c_price r)
        \<and> c_price_min r = CVal va \<and> num_of va = Some a \<and> 0 < a
        \<and> c_price_max r = CVal vb \<and> num_of vb = Some b \<and> 0 < b
        \<and> c_shares r = CVal vs \<and> num_of vs = Some n \<and> n \<noteq> 0
       \<longrightarrow> implied_marketcap sf r = Some (F ((a + b) / 2 * n)))
 \<and> (\<not> cell_truthy (c_shares r) \<longrightarrow> implied_marketcap sf r = None)
 \<and> (\<not> cell_truthy (c_price r) \<and> \<not> (cell_truthy (c_price_min r) \<and> cell_truthy (c_price_max r))
       \<longrightarrow> implied_marketcap sf r = None)
 \<and> (\<forall>s. c_shares r = CVal (PStr s) \<and> s \<noteq> []
       \<longrightarrow> implied_marketcap sf r
           = implied_marketcap sf (r\<lparr>c_shares := CVal (PInt (str_to_int (filter is_digit s)))\<rparr>))"
proof (intro conjI allI impI)
  fix vp vs p n
  assume h: "c_price r = CVal vp \<and> num_of vp = Some p \<and> p \<noteq> 0
        \<and> c_shares r = CVal vs \<and> num_of vs = Some n \<and> n \<noteq> 0"
  then have pv: "price_val sf r = Some (F p)"
    by (simp add: price_val_def py_float_num truthy_num)
  from h shares_coerced_num [of r vs n p] pv
  show "implied_marketcap sf r = Some (F (p * n))"
    by (simp add: implied_marketcap_def Let_def)
next
  fix va vb vs a b n
  assume h: "\<not> cell_truthy (c_price r)
        \<and> c_price_min r = CVal va \<and> num_of va = Some a \<and> 0 < a
        \<and> c_price_max r = CVal vb \<and> num_of vb = Some b \<and> 0 < b
        \<and> c_shares r = CVal vs \<and> num_of vs = Some n \<and> n \<noteq> 0"
  then have pv: "price_val sf r = Some (F ((a + b) / 2))"
    by (simp add: price_val_def py_float_num truthy_num)
  from h have nz: "(a + b) / 2 \<noteq> 0" by simp
  from h shares_coerced_num [of r vs n "(a + b) / 2"] pv nz
  show "implied_marketcap sf r = Some (F ((a + b) / 2 * n))"
    by (simp add: implied_marketcap_def Let_def)
next
  assume "\<not> cell_truthy (c_shares r)"
  then show "implied_marketcap sf r = None"
    using shares_coerced_falsy [of r]
    by (simp add: implied_marketcap_def Let_def split: option.splits)
next
  assume "\<not> cell_truthy (c_price r) \<and> \<not> (cell_truthy (c_price_min r) \<and> cell_truthy (c_price_max r))"
  then have "price_val sf r = None" by (auto simp: price_val_def)
  then show "implied_marketcap sf r = None" by (simp add: implied_marketcap_def Let_def)
next
  fix s
  assume h: "c_shares r = CVal (PStr s) \<and> s \<noteq> []"
  let ?r' = "r\<lparr>c_shares := CVal (PInt (str_to_int (filter is_digit s)))\<rparr>"
  have "shares_coerced r = shares_coerced ?r'"
    using h by (simp add: shares_coerced_string shares_coerced_int)
  moreover have "price_val sf r = price_val sf ?r'"
    by (simp add: price_val_def cong: sum.case_cong)
  ultimately show "implied_marketcap sf r = implied_marketcap sf ?r'"
    by (simp add: implied_marketcap_def Let_def)
qed

text \<open>A frame of one row has no NaN, and the examples of the specification come out.\<close>

lemma implied_marketcap_single_rows:
  "implied_marketcaps (\<lambda>s. None) [demo_row (PInt 20) PNone PNone (PInt 1000000)]
     = [Some (F 20000000)]
 \<and> implied_marketcaps (\<lambda>s. None) [demo_row PNone (PInt 18) (PInt 22) (PInt 1000000)]
     = [Some (F 20000000)]
 \<and> implied_marketcaps (\<lambda>s. None) [demo_row (PInt 20) PNone PNone PNone] = [None]
 \<and> implied_marketcaps (\<lambda>s. None) [demo_row (PInt 20) PNone PNone (PStr ''1,000,000'')]
     = [Some (F 20000000)]"
  by code_simp


subsection \<open>Deduplication and the empty window\<close>

lemma drop_dup_loop_keys:
  "set (map key (drop_dup_loop key seen xs)) = set (map key xs) - set seen"
  by (induction xs arbitrary: seen) auto

lemma drop_dup_loop_fresh:
  assumes "x \<in> set (drop_dup_loop key seen xs)"
  shows "key x \<notin> set seen"
proof -
  from assms have "key x \<in> set (map key (drop_dup_loop key seen xs))" by simp
  then show ?thesis unfolding drop_dup_loop_keys by simp
qed

lemma drop_dup_loop_distinct:
  "distinct (map key (drop_dup_loop key seen xs))"
proof (induction xs arbitrary: seen)
  case Nil
  then show ?case by simp
next
  case (Cons a xs)
  have "key a \<notin> key ` set (drop_dup_loop key (key a # seen) xs)"
    using drop_dup_loop_fresh [of _ key "key a # seen" xs] by fastforce
  with Cons show ?case by simp
qed

lemma drop_dup_loop_subseq:
  "subseq (drop_dup_loop key seen xs) xs"
  by (induction xs arbitrary: seen) auto

lemma drop_dup_loop_find:
  "find (\<lambda>x. key x = k) (drop_dup_loop key seen xs)
     = (if k \<in> set seen then None else find (\<lambda>x. key x = k) xs)"
proof (induction xs arbitrary: seen)
  case Nil
  then show ?case by simp
next
  case (Cons x xs)
  show ?case
  proof (cases "key x \<in> set seen")
    case True
    then show ?thesis using Cons [of seen] by auto
  next
    case False
    then show ?thesis using Cons [of "key x # seen"] by auto
  qed
qed

lemma drop_dup_loop_id:
  "distinct (map key xs) \<Longrightarrow> set (map key xs) \<inter> set seen = {}
     \<Longrightarrow> drop_dup_loop key seen xs = xs"
  by (induction xs arbitrary: seen) auto

lemma drop_dup_loop_Nil: "drop_dup_loop key [] xs = [] \<longleftrightarrow> xs = []"
  by (cases xs) auto

lemma row_key_components:
  "row_key = (\<lambda>r. (r_date r, r_company r, r_symbol r, r_source r))"
  by (rule ext) (simp add: row_key_def)

lemma drop_dup_loop_first_kept:
  assumes "i < length xs" and "\<forall>j<i. key (xs ! j) \<noteq> key (xs ! i)"
  shows "xs ! i \<in> set (drop_dup_loop key [] xs)"
proof -
  have "find (\<lambda>x. key x = key (xs ! i)) xs = Some (xs ! i)"
    unfolding find_Some_iff using assms by auto
  then have "find (\<lambda>x. key x = key (xs ! i)) (drop_dup_loop key [] xs) = Some (xs ! i)"
    by (simp add: drop_dup_loop_find)
  then show ?thesis unfolding find_Some_iff by auto
qed

text \<open>
  Claim C6. The key of a row is its date, company, symbol and source. After
  deduplication no two rows have the same key; the keys that occur are the keys of the
  input; for every key the row kept is the first input row with that key; the result is
  the input with rows left out, in the input's order, no row changed or merged; rows whose
  keys are pairwise different are all kept; and a row that differs from every earlier row
  in its date, its company, its symbol or its source is kept. The witness has rows that
  differ from the first in one component each, and a second row with the key of the first.
\<close>

theorem drop_duplicates_keeps_first:
  fixes rows :: "ipo_row list"
  defines "key \<equiv> \<lambda>r. (r_date r, r_company r, r_symbol r, r_source r)"
  shows "distinct (map key (drop_duplicates rows))
 \<and> set (map key (drop_duplicates rows)) = set (map key rows)
 \<and> (\<forall>k. find (\<lambda>r. key r = k) (drop_duplicates rows) = find (\<lambda>r. key r = k) rows)
 \<and> subseq (drop_duplicates rows) rows
 \<and> (distinct (map key rows) \<longrightarrow> drop_duplicates rows = rows)
 \<and> (\<forall>i < length rows.
       (\<forall>j < i. r_date (rows ! j) \<noteq> r_date (rows ! i)
              \<or> r_company (rows ! j) \<noteq> r_company (rows ! i)
              \<or> r_symbol (rows ! j) \<noteq> r_symbol (rows ! i)
              \<or> r_source (rows ! j) \<noteq> r_source (rows ! i))
       \<longrightarrow> rows ! i \<in> set (drop_duplicates rows))"
proof -
  have k: "key = row_key" unfolding key_def row_key_components ..
  have last: "\<forall>i < length rows.
       (\<forall>j < i. r_date (rows ! j) \<noteq> r_date (rows ! i)
              \<or> r_company (rows ! j) \<noteq> r_company (rows ! i)
              \<or> r_symbol (rows ! j) \<noteq> r_symbol (rows ! i)
              \<or> r_source (rows ! j) \<noteq> r_source (rows ! i))
       \<longrightarrow> rows ! i \<in> set (drop_duplicates rows)"
  proof (intro allI impI)
    fix i
    assume i: "i < length rows"
      and d: "\<forall>j < i. r_date (rows ! j) \<noteq> r_date (rows ! i)
              \<or> r_company (rows ! j) \<noteq> r_company (rows ! i)
              \<or> r_symbol (rows ! j) \<noteq> r_symbol (rows ! i)
              \<or> r_source (rows ! j) \<noteq> r_source (rows ! i)"
    from d have "\<forall>j<i. row_key (rows ! j) \<noteq> row_key (rows ! i)"
      by (auto simp: row_key_def)
    from drop_dup_loop_first_kept [OF i this]
    show "rows ! i \<in> set (drop_duplicates rows)" by (simp add: drop_duplicates_def)
  qed
  show ?thesis
    unfolding k drop_duplicates_def
    using drop_dup_loop_distinct [of row_key "[]" rows]
          drop_dup_loop_keys [of row_key "[]" rows]
          drop_dup_loop_find [of row_key _ "[]" rows]
          drop_dup_loop_subseq [of row_key "[]" rows]
          drop_dup_loop_id [of row_key rows "[]"]
          last [unfolded drop_duplicates_def]
    by simp
qed

theorem drop_duplicates_witness:
  "drop_duplicates
     [demo_row (PInt 20) PNone PNone PNone,
      (demo_row (PInt 20) PNone PNone PNone)\<lparr>r_date := Some ''2025-01-16''\<rparr>,
      demo_row PNone (PInt 18) (PInt 22) PNone,
      (demo_row (PInt 20) PNone PNone PNone)\<lparr>r_company := Some ''Acme Holdings''\<rparr>,
      (demo_row (PInt 20) PNone PNone PNone)\<lparr>r_symbol := None\<rparr>,
      (demo_row (PInt 20) PNone PNone PNone)\<lparr>r_source := ''Finnhub''\<rparr>]
   = [demo_row (PInt 20) PNone PNone PNone,
      (demo_row (PInt 20) PNone PNone PNone)\<lparr>r_date := Some ''2025-01-16''\<rparr>,
      (demo_row (PInt 20) PNone PNone PNone)\<lparr>r_company := Some ''Acme Holdings''\<rparr>,
      (demo_row (PInt 20) PNone PNone PNone)\<lparr>r_symbol := None\<rparr>,
      (demo_row (PInt 20) PNone PNone PNone)\<lparr>r_source := ''Finnhub''\<rparr>]
 \<and> drop_duplicates
     [demo_row (PInt 20) PNone PNone PNone,
      (demo_row (PInt 20) PNone PNone PNone)\<lparr>r_date := Some ''2025-01-16''\<rparr>,
      (demo_row (PInt 20) PNone PNone PNone)\<lparr>r_company := Some ''Acme Holdings''\<rparr>,
      (demo_row (PInt 20) PNone PNone PNone)\<lparr>r_symbol := None\<rparr>,
      (demo_row (PInt 20) PNone PNone PNone)\<lparr>r_source := ''Finnhub''\<rparr>]
   = [demo_row (PInt 20) PNone PNone PNone,
      (demo_row (PInt 20) PNone PNone PNone)\<lparr>r_date := Some ''2025-01-16''\<rparr>,
      (demo_row (PInt 20) PNone PNone PNone)\<lparr>r_company := Some ''Acme Holdings''\<rparr>,
      (demo_row (PInt 20) PNone PNone PNone)\<lparr>r_symbol := None\<rparr>,
      (demo_row (PInt 20) PNone PNone PNone)\<lparr>r_source := ''Finnhub''\<rparr>]"
proof -
  let ?a = "demo_row (PInt 20) PNone PNone PNone"
  let ?d = "(demo_row (PInt 20) PNone PNone PNone)\<lparr>r_date := Some ''2025-01-16''\<rparr>"
  let ?c = "(demo_row (PInt 20) PNone PNone PNone)\<lparr>r_company := Some ''Acme Holdings''\<rparr>"
  let ?s = "(demo_row (PInt 20) PNone PNone PNone)\<lparr>r_symbol := None\<rparr>"
  let ?f = "(demo_row (PInt 20) PNone PNone PNone)\<lparr>r_source := ''Finnhub''\<rparr>"
  have d: "distinct (map (\<lambda>r. (r_date r, r_company r, r_symbol r, r_source r)) [?a, ?d, ?c, ?s, ?f])"
    by (simp add: demo_row_def)
  note t = drop_duplicates_keeps_first [of "[?a, ?d, ?c, ?s, ?f]", THEN conjunct2,
      THEN conjunct2, THEN conjunct2, THEN conjunct2, THEN conjunct1]
  from t d have second: "drop_duplicates [?a, ?d, ?c, ?s, ?f] = [?a, ?d, ?c, ?s, ?f]" by blast
  have first: "drop_duplicates [?a, ?d, demo_row PNone (PInt 18) (PInt 22) PNone, ?c, ?s, ?f]
      = [?a, ?d, ?c, ?s, ?f]"
    by (simp add: drop_duplicates_def row_key_def demo_row_def)
  from first second show ?thesis by simp
qed

text \<open>
  Claim C7. When the deduplicated frame is empty (which is when both providers returned
  nothing), the run stops with the message and enriches nothing. A run that goes on to
  render has one enriched record for every deduplicated row, so at least one; the two
  outcomes are different values.
\<close>

theorem run_empty_window:
  "(drop_duplicates (fmp_rows @ finnhub_rows) = [] \<longrightarrow>
      run enrich fmp_rows finnhub_rows
        = Stopped ''No IPOs found for the selected window. Try widening the date range.'')
 \<and> (drop_duplicates (fmp_rows @ finnhub_rows) = [] \<longleftrightarrow> fmp_rows = [] \<and> finnhub_rows = [])
 \<and> (\<forall>es. run enrich fmp_rows finnhub_rows = Rendered es \<longrightarrow>
       es \<noteq> [] \<and> length es = length (drop_duplicates (fmp_rows @ finnhub_rows)))
 \<and> (\<forall>msg es. (Stopped msg :: 'e run_result) \<noteq> Rendered es)"
proof -
  have len: "length (sort_values_date df) = length df" for df
    by (simp add: sort_values_date_def)
  have nil: "sort_values_date df = [] \<longleftrightarrow> df = []" for df
    using len [of df] by (metis length_0_conv)
  have e: "drop_duplicates (fmp_rows @ finnhub_rows) = [] \<longleftrightarrow> fmp_rows = [] \<and> finnhub_rows = []"
    by (simp add: drop_duplicates_def drop_dup_loop_Nil)
  have a: "drop_duplicates (fmp_rows @ finnhub_rows) = [] \<longrightarrow>
      run enrich fmp_rows finnhub_rows
        = Stopped ''No IPOs found for the selected window. Try widening the date range.''"
    by (simp add: run_def Let_def)
  have c: "\<forall>es. run enrich fmp_rows finnhub_rows = Rendered es \<longrightarrow>
       es \<noteq> [] \<and> length es = length (drop_duplicates (fmp_rows @ finnhub_rows))"
    by (cases "drop_duplicates (fmp_rows @ finnhub_rows) = []")
       (auto simp: run_def Let_def len nil)
  have d: "\<forall>msg es. (Stopped msg :: 'e run_result) \<noteq> Rendered es" by simp
  from a e c d show ?thesis by blast
qed

theorem run_empty_window_witness:
  "run (\<lambda>r. r_company r) [] []
     = Stopped ''No IPOs found for the selected window. Try widening the date range.''
 \<and> run (\<lambda>r. r_company r) [demo_row (PInt 20) PNone PNone PNone] [] = Rendered [Some ''Acme'']"
proof -
  note t = run_empty_window [of "[]" "[]" "\<lambda>r. r_company r"]
  have e: "drop_duplicates ([] @ []) = []" by (simp add: drop_duplicates_def)
  from t e have a: "run (\<lambda>r. r_company r) [] []
     = Stopped ''No IPOs found for the selected window. Try widening the date range.''"
    by blast
  have b: "run (\<lambda>r. r_company r) [demo_row (PInt 20) PNone PNone PNone] [] = Rendered [Some ''Acme'']"
    by (simp add: run_def drop_duplicates_def sort_values_date_def demo_row_def)
  from a b show ?thesis by simp
qed

subsection \<open>Lockup extraction\<close>

lemma dict_items_loop_scalars:
  "\<forall>kv \<in> set kvs. is_scalar (snd kv) \<Longrightarrow>
     dict_items_loop kvs acc = Inr (acc @ concat (map long_text kvs))"
proof (induction kvs arbitrary: acc)
  case Nil
  then show ?case by simp
next
  case (Cons kv kvs)
  obtain k v where kv: "kv = (k, v)" by (cases kv)
  from Cons.prems have rest: "\<forall>kv \<in> set kvs. is_scalar (snd kv)" by simp
  from Cons.prems kv have "is_scalar v" by simp
  then show ?case
    using Cons.IH [OF rest] kv by (cases v) simp_all
qed

text \<open>
  Claim C1, as amended. For a map all of whose values are scalars, the traversal returns
  the string values longer than 40 characters, each after a space and in the order of the
  map, and the lockup is parsed from that text. A string of 40 characters or fewer adds
  nothing. Applied to the 34-character sentence of the claim itself, lockup parsing gives
  "180 days". The witness: the sentence lengthened beyond 40 characters gives "180 days"
  through the extraction; the sentence as it is gives nothing.
\<close>

theorem s1_lockup_flat_map:
  "(\<forall>kvs. (\<forall>kv \<in> set kvs. is_scalar (snd kv)) \<longrightarrow>
       recursive_search (PDict kvs) = Inr (concat (map long_text kvs), find_url kvs url_keys)
     \<and> s1_lockup (PDict kvs) = parse_lockup (concat (map long_text kvs)))
 \<and> (\<forall>k v. long_text (k, PStr v) = (if length v > 40 then '' '' @ v else []))
 \<and> parse_lockup ''Lockup period of 180 days applies.'' = Some ''180 days''"
proof (intro conjI allI impI)
  fix kvs :: "(string \<times> pyval) list"
  assume sc: "\<forall>kv \<in> set kvs. is_scalar (snd kv)"
  show rs: "recursive_search (PDict kvs) = Inr (concat (map long_text kvs), find_url kvs url_keys)"
    by (simp add: dict_items_loop_scalars [OF sc])
  show "s1_lockup (PDict kvs) = parse_lockup (concat (map long_text kvs))"
  proof (cases "kvs = []")
    case True
    then show ?thesis by (simp add: s1_lockup_def parse_lockup_def)
  next
    case False
    then show ?thesis unfolding s1_lockup_def rs by simp
  qed
next
  fix k v
  show "long_text (k, PStr v) = (if length v > 40 then '' '' @ v else [])" by simp
next
  show "parse_lockup ''Lockup period of 180 days applies.'' = Some ''180 days''"
    by code_simp
qed

theorem s1_lockup_flat_map_witness:
  "s1_lockup (PDict [(''text'',
      PStr ''Lockup period of 180 days applies to all existing shareholders.'')])
     = Some ''180 days''
 \<and> s1_lockup (PDict [(''text'', PStr ''Lockup period of 180 days applies.'')]) = None"
proof -
  let ?long = "[(''text'', PStr ''Lockup period of 180 days applies to all existing shareholders.'')]"
  let ?short = "[(''text'', PStr ''Lockup period of 180 days applies.'')]"
  have sl: "\<forall>kv \<in> set ?long. is_scalar (snd kv)" by simp
  have ss: "\<forall>kv \<in> set ?short. is_scalar (snd kv)" by simp
  note t = s1_lockup_flat_map [THEN conjunct1, THEN spec, THEN mp, THEN conjunct2]
  have pl: "parse_lockup (concat (map long_text ?long)) = Some ''180 days''" by code_simp
  have ps: "parse_lockup (concat (map long_text ?short)) = None" by code_simp
  from t [OF sl] pl t [OF ss] ps show ?thesis by simp
qed

text \<open>
  Claim C1 as stated: on the nested input of the specification the extraction gives no
  lockup. The sentence has 34 characters, below the threshold of the traversal, and the
  value of the key \<open>risk\<close> is a map, on which the loop over the items raises.
\<close>

theorem s1_lockup_nested_counterexample:
  "s1_lockup (PDict [(''risk'', PDict [(''text'', PStr ''Lockup period of 180 days applies.'')])])
     = None
 \<and> s1_lockup (PDict [(''risk'', PDict [(''text'', PStr ''Lockup period of 180 days applies.'')])])
     \<noteq> Some ''180 days''"
  by (simp add: s1_lockup_def)

end
